theory Spec2Isabelle
  imports Main "HOL-Library.Word" "HOL-Library.AList"
begin

section \<open>Data model of route35 (main.go)\<close>

text \<open>
  The server is one Go file. Its own types are \<open>Record\<close>, \<open>NamedRecord\<close>, \<open>Transport\<close>,
  \<open>Duration\<close>, \<open>Nameserver\<close> and \<open>Config\<close>; the DNS message types come from the package
  \<open>github.com/miekg/dns\<close> and are modelled by the fields the server reads and writes.
  Go strings are byte sequences, as \<^typ>\<open>string\<close> is here.
\<close>

type_synonym uint16 = "16 word"
type_synonym uint32 = "32 word"

text \<open>\<open>type Record struct { Address string; TTL int }\<close>\<close>

record Record =
  Address :: string
  TTL :: int


text \<open>\<open>type Transport string\<close> and \<open>type Duration time.Duration\<close> (an int64 of nanoseconds).\<close>

type_synonym Transport = string
type_synonym Duration = int

record Nameserver =
  nsAddress :: string
  Timeout :: Duration
  Transport :: Transport

text \<open>
  A Go map is a reference: \<open>config.Records\<close> holds the address of the table, and every
  handler that has the \<open>Config\<close> reads and writes the same table through it. The store maps
  addresses to tables; \<open>None\<close> is the nil map of a configuration without a \<open>Records\<close> entry.
  The values of the map are pointers to records that are never written after they are stored,
  so a table entry is the record itself; an entry holding a nil pointer is read by the handlers
  as an absent one (\<open>record != nil\<close>) and is modelled as absent.
\<close>

type_synonym addr = nat
type_synonym RecordTable = "string \<rightharpoonup> Record"
type_synonym store = "addr \<Rightarrow> RecordTable"

record Config =
  Port :: int
  Name :: string
  Secret :: string
  Records :: "addr option"
  Nameservers :: "Nameserver list"

subsection \<open>Messages of the DNS package\<close>

record dnsQuestion =
  qName :: string
  Qtype :: uint16
  Qclass :: uint16

record dnsRR_Header =
  hdrName :: string
  Rrtype :: uint16
  Class :: uint16
  Ttl :: uint32

text \<open>
  \<open>dns.RR\<close> is an interface whose \<open>Header()\<close> gives the \<open>RR_Header\<close>; the server reads
  nothing of a resource record but the owner name of its header.
\<close>

record dnsRR = dnsRR_Header +
  Rdata :: string

record dnsMsg =
  Id :: uint16
  Response :: bool
  Opcode :: int
  Authoritative :: bool
  Truncated :: bool
  RecursionDesired :: bool
  RecursionAvailable :: bool
  Zero :: bool
  AuthenticatedData :: bool
  CheckingDisabled :: bool
  Rcode :: int
  Compress :: bool
  Question :: "dnsQuestion list"
  Answer :: "dnsRR list"
  Ns :: "dnsRR list"
  Extra :: "dnsRR list"

text \<open>\<open>new(dns.Msg)\<close> and \<open>&dns.Msg{}\<close>: every field has its zero value.\<close>

definition new_Msg :: dnsMsg where
  "new_Msg = \<lparr>Id = 0, Response = False, Opcode = 0, Authoritative = False, Truncated = False,
     RecursionDesired = False, RecursionAvailable = False, Zero = False,
     AuthenticatedData = False, CheckingDisabled = False, Rcode = 0, Compress = False,
     Question = [], Answer = [], Ns = [], Extra = []\<rparr>"

definition RcodeServerFailure :: int where
  "RcodeServerFailure = 2"

text \<open>
  Go errors the server tells apart: \<open>dns.ErrTruncated\<close>, the error
  \<open>fmt.Errorf("Illegal value for transport %q", s)\<close> of the transport parser, and any other
  error of a library.
\<close>

datatype error = ErrTruncated | IllegalTransport string | LibError string

datatype go_panic = Panic error

record Client =
  Net :: string
  clTimeout :: int

subsection \<open>The libraries, as parameters\<close>

text \<open>
  The calls into \<open>github.com/miekg/dns\<close> are parameters of the model:
  \<^item> \<open>NewRR\<close> parses the text of a resource record;
  \<^item> \<open>SetReply m request\<close> and \<open>SetRcode m request rcode\<close> give the receiver \<open>m\<close> after
    the call;
  \<^item> \<open>Exchange w c m a\<close> is \<open>c.Exchange(m, a)\<close> in the state \<open>w\<close> of the network: the reply,
    the error and the state after the call. With an error other than \<open>ErrTruncated\<close> the
    reply is nil in Go and is not read.
\<close>

record 'w dnslib =
  NewRR :: "string \<Rightarrow> error + dnsRR"
  SetReply :: "dnsMsg \<Rightarrow> dnsMsg \<Rightarrow> dnsMsg"
  SetRcode :: "dnsMsg \<Rightarrow> dnsMsg \<Rightarrow> int \<Rightarrow> dnsMsg"
  Exchange :: "'w \<Rightarrow> Client \<Rightarrow> dnsMsg \<Rightarrow> string \<Rightarrow> (dnsMsg \<times> error option) \<times> 'w"

section \<open>Parsing a transport\<close>

text \<open>
  \<open>func (e *Transport) UnmarshalJSON(b []byte) error\<close>. The first argument is
  \<open>json.Unmarshal\<close> into a string; the result is the value of \<open>*e\<close> after the call and
  the error returned.
\<close>

definition Transport_UnmarshalJSON ::
  "(string \<Rightarrow> error + string) \<Rightarrow> Transport \<Rightarrow> string \<Rightarrow> Transport \<times> error option" where
  "Transport_UnmarshalJSON json_Unmarshal e b =
     (case json_Unmarshal b of
        Inl err \<Rightarrow> (e, Some err)
      | Inr s \<Rightarrow>
          if s = [] then (''tcp'', None)
          else if s = ''tcp'' \<or> s = ''udp'' then (s, None)
          else (e, Some (IllegalTransport s)))"

text \<open>
  A decoder of JSON string literals without escapes, for the examples: the text between
  the two double quotes.
\<close>

definition unquote :: "string \<Rightarrow> error + string" where
  "unquote b =
     (if 2 \<le> length b \<and> hd b = CHR 0x22 \<and> last b = CHR 0x22 then Inr (butlast (tl b))
      else Inl (LibError ''json: cannot unmarshal into Go value of type string''))"

definition quoted :: "string \<Rightarrow> string" where
  "quoted s = CHR 0x22 # s @ [CHR 0x22]"

section \<open>Strings and resource-record templates\<close>

text \<open>\<open>strings.HasSuffix\<close> and \<open>strings.TrimSuffix\<close> of the Go standard library.\<close>

definition HasSuffix :: "string \<Rightarrow> string \<Rightarrow> bool" where
  "HasSuffix s suffix =
     (length suffix \<le> length s \<and> drop (length s - length suffix) s = suffix)"

definition TrimSuffix :: "string \<Rightarrow> string \<Rightarrow> string" where
  "TrimSuffix s suffix =
     (if HasSuffix s suffix then take (length s - length suffix) s else s)"

text \<open>The verb \<open>%d\<close> of \<open>fmt.Sprintf\<close>: the decimal digits, after a minus sign if negative.\<close>

fun digits :: "nat \<Rightarrow> string" where
  "digits n =
     (if n < 10 then [char_of (48 + n)] else digits (n div 10) @ [char_of (48 + n mod 10)])"

declare digits.simps [simp del]

definition itoa :: "int \<Rightarrow> string" where
  "itoa i = (if i < 0 then CHR ''-'' # digits (nat (- i)) else digits (nat i))"

text \<open>\<open>fmt.Sprintf("%s %d IN A %s", name, ttl, address)\<close>\<close>

definition Sprintf_A :: "string \<Rightarrow> int \<Rightarrow> string \<Rightarrow> string" where
  "Sprintf_A name ttl address = name @ '' '' @ itoa ttl @ '' IN A '' @ address"

text \<open>\<open>fmt.Sprintf("%s 3600 IN NS %s.", name, host)\<close>\<close>

definition Sprintf_NS :: "string \<Rightarrow> string \<Rightarrow> string" where
  "Sprintf_NS name host = name @ '' 3600 IN NS '' @ host @ ''.''"

text \<open>\<open>func MustRR(template string) dns.RR\<close>: the parsed record, or a panic with the error.\<close>

definition MustRR :: "'w dnslib \<Rightarrow> string \<Rightarrow> go_panic + dnsRR" where
  "MustRR lib template =
     (case NewRR lib template of Inl err \<Rightarrow> Inl (Panic err) | Inr v \<Rightarrow> Inr v)"

section \<open>The pass-through handler\<close>

text \<open>
  One call of \<open>Exchange\<close>, as the handlers' runs record it: the nameserver, the client made
  for it, the message and the address given to \<open>Exchange\<close>, and the reply and error it
  returned. The log is not a variable of the program; it is what an observer of the
  network sees of a run.
\<close>

record query =
  server :: Nameserver
  via :: Client
  sent :: dnsMsg
  dialled :: string
  reply :: dnsMsg
  err :: "error option"

text \<open>
  \<open>func WriteError(response dns.ResponseWriter, request *dns.Msg)\<close>: the message given to
  \<open>response.WriteMsg\<close>.
\<close>

definition WriteError :: "'w dnslib \<Rightarrow> dnsMsg \<Rightarrow> dnsMsg" where
  "WriteError lib request =
     (let message = new_Msg;
          message = SetReply lib message request;
          message = message\<lparr>Compress := False\<rparr>;
          message = message\<lparr>RecursionAvailable := True\<rparr>;
          message = SetRcode lib message request RcodeServerFailure
      in message)"

text \<open>
  The loop of \<open>RecurseHandler\<close> over \<open>config.Nameservers\<close>. \<open>Some r\<close> is the early return
  after \<open>response.WriteMsg(r)\<close>; \<open>None\<close> is the end of the list.
\<close>

fun RecurseHandler_loop ::
  "'w dnslib \<Rightarrow> dnsMsg \<Rightarrow> Nameserver list \<Rightarrow> 'w \<Rightarrow> query list
     \<Rightarrow> dnsMsg option \<times> query list \<times> 'w" where
  "RecurseHandler_loop lib request [] w log = (None, log, w)"
| "RecurseHandler_loop lib request (nameserver # rest) w log =
     (let c = \<lparr>Net = Transport nameserver, clTimeout = Timeout nameserver\<rparr> in
      case Exchange lib w c request (nsAddress nameserver) of
        ((r, e), w') \<Rightarrow>
          let log' = log @ [\<lparr>server = nameserver, via = c, sent = request,
                              dialled = nsAddress nameserver, reply = r, err = e\<rparr>]
          in if e = None \<or> e = Some ErrTruncated
             then (Some (r\<lparr>Compress := False\<rparr>), log', w')
             else RecurseHandler_loop lib request rest w' log')"

text \<open>
  What a handler does: the message it gives to \<open>response.WriteMsg\<close>, the exchanges it made
  and the state of the network after it.
\<close>

record 'w handled =
  written :: dnsMsg
  exchanges :: "query list"
  world :: 'w

definition RecurseHandler :: "'w dnslib \<Rightarrow> Config \<Rightarrow> dnsMsg \<Rightarrow> 'w \<Rightarrow> 'w handled" where
  "RecurseHandler lib config request w =
     (case RecurseHandler_loop lib request (Nameservers config) w [] of
        (Some r, log, w') \<Rightarrow> \<lparr>written = r, exchanges = log, world = w'\<rparr>
      | (None, log, w') \<Rightarrow> \<lparr>written = WriteError lib request, exchanges = log, world = w'\<rparr>)"

section \<open>Batch resolution\<close>

text \<open>\<open>func (nameserver *Nameserver) Client() *dns.Client\<close>\<close>

definition Nameserver_Client :: "Nameserver \<Rightarrow> Client" where
  "Nameserver_Client nameserver =
     \<lparr>Net = Transport nameserver, clTimeout = Timeout nameserver\<rparr>"

text \<open>
  The variables of \<open>Resolve\<close>. \<open>targets\<close> is the Go map from names to questions, kept as
  an association list with one entry for a name. \<open>asked\<close> logs each exchange together with
  the slice \<open>unknown\<close> the loop has built from \<open>targets\<close> before it (Go ranges over a map in
  no fixed order; the list has the order of the association list).
\<close>

record 'w resolving =
  targets :: "(string \<times> dnsQuestion) list"
  answers :: "dnsRR list"
  asked :: "(dnsQuestion list \<times> query) list"
  net :: 'w

text \<open>The body of the loop over the nameservers, after the test of \<open>len(targets) == 0\<close>.\<close>

definition Resolve_body ::
  "'w dnslib \<Rightarrow> dnsQuestion list \<Rightarrow> Nameserver \<Rightarrow> 'w resolving \<Rightarrow> 'w resolving" where
  "Resolve_body lib questions nameserver s =
     (let unknown = map snd (targets s);
          r = new_Msg\<lparr>Question := questions\<rparr>;
          c = Nameserver_Client nameserver
      in case Exchange lib (net s) c r (nsAddress nameserver) of
        ((r', e), w') \<Rightarrow>
          let s = s\<lparr>net := w',
                    asked := asked s @ [(unknown, \<lparr>server = nameserver, via = c, sent = r,
                               dialled = nsAddress nameserver, reply = r', err = e\<rparr>)]\<rparr>
          in if e = None \<or> e = Some ErrTruncated
             then s\<lparr>answers := answers s @ Answer r',
                    targets := fold (\<lambda>answer. AList.delete (hdrName answer)) (Answer r') (targets s)\<rparr>
             else s)"

fun Resolve_loop ::
  "'w dnslib \<Rightarrow> dnsQuestion list \<Rightarrow> Nameserver list \<Rightarrow> 'w resolving \<Rightarrow> 'w resolving" where
  "Resolve_loop lib questions [] s = s"
| "Resolve_loop lib questions (nameserver # rest) s =
     (if length (targets s) = 0 then s
      else Resolve_loop lib questions rest (Resolve_body lib questions nameserver s))"

text \<open>\<open>targets[question.Name] = question\<close> for each question, in order.\<close>

definition Resolve_targets :: "dnsQuestion list \<Rightarrow> (string \<times> dnsQuestion) list" where
  "Resolve_targets questions =
     fold (\<lambda>question. AList.update (qName question) question) questions []"

definition Resolve_run ::
  "'w dnslib \<Rightarrow> Config \<Rightarrow> dnsQuestion list \<Rightarrow> 'w \<Rightarrow> 'w resolving" where
  "Resolve_run lib config questions w =
     Resolve_loop lib questions (Nameservers config)
       \<lparr>targets = Resolve_targets questions, answers = [], asked = [], net = w\<rparr>"

text \<open>\<open>func (config *Config) Resolve(questions []dns.Question) []dns.RR\<close>\<close>

definition Resolve :: "'w dnslib \<Rightarrow> Config \<Rightarrow> dnsQuestion list \<Rightarrow> 'w \<Rightarrow> dnsRR list" where
  "Resolve lib config questions w = answers (Resolve_run lib config questions w)"

section \<open>The handler of the owned zone\<close>

text \<open>\<open>config.Records[key]\<close>: reading a nil map gives the zero value, a nil pointer.\<close>

definition Records_get :: "store \<Rightarrow> Config \<Rightarrow> string \<Rightarrow> Record option" where
  "Records_get st config key = (case Records config of None \<Rightarrow> None | Some a \<Rightarrow> st a key)"

text \<open>The key of a question: \<open>strings.TrimSuffix(question.Name, fmt.Sprintf(".%s", config.Name))\<close>.\<close>

definition question_key :: "Config \<Rightarrow> dnsQuestion \<Rightarrow> string" where
  "question_key config question = TrimSuffix (qName question) (''.'' @ Name config)"

text \<open>
  The first loop of \<open>RequestHandler\<close>, over \<open>request.Question\<close>, with its two slices
  \<open>answers\<close> (here \<open>answers'\<close>, apart from the field of \<open>Resolve\<close>) and \<open>unknown\<close>.
  A panic of \<open>MustRR\<close> ends the handler.
\<close>

fun RequestHandler_split ::
  "'w dnslib \<Rightarrow> store \<Rightarrow> Config \<Rightarrow> dnsQuestion list \<Rightarrow> dnsRR list \<Rightarrow> dnsQuestion list
     \<Rightarrow> go_panic + (dnsRR list \<times> dnsQuestion list)" where
  "RequestHandler_split lib st config [] answers' unknown = Inr (answers', unknown)"
| "RequestHandler_split lib st config (question # rest) answers' unknown =
     (let key = question_key config question in
      case Records_get st config key of
        Some record \<Rightarrow>
          (case MustRR lib (Sprintf_A (qName question) (TTL record) (Address record)) of
             Inl p \<Rightarrow> Inl p
           | Inr rr \<Rightarrow> RequestHandler_split lib st config rest (answers' @ [rr]) unknown)
      | None \<Rightarrow> RequestHandler_split lib st config rest answers' (unknown @ [question]))"

text \<open>
  \<open>func (config *Config) RequestHandler(response dns.ResponseWriter, request *dns.Msg)\<close>.
  \<open>Host\<close> is the package variable of that name, set when the program starts.
\<close>

definition RequestHandler ::
  "'w dnslib \<Rightarrow> string \<Rightarrow> store \<Rightarrow> Config \<Rightarrow> dnsMsg \<Rightarrow> 'w \<Rightarrow> go_panic + 'w handled" where
  "RequestHandler lib Host st config request w =
     (let message = new_Msg in
      case RequestHandler_split lib st config (Question request) [] [] of
        Inl p \<Rightarrow> Inl p
      | Inr (answers', unknown) \<Rightarrow>
          let run = Resolve_run lib config unknown w;
              (answers', log, w') =
                 (if length unknown > 0
                  then (answers' @ Resolve lib config unknown w, map snd (asked run), net run)
                  else (answers', [], w));
              message = message\<lparr>Answer := answers'\<rparr>
          in case MustRR lib (Sprintf_NS (Name config) Host) of
               Inl p \<Rightarrow> Inl p
             | Inr ns \<Rightarrow>
                 let message = message\<lparr>Ns := [ns]\<rparr>;
                     message = message\<lparr>Authoritative := True\<rparr>;
                     message = message\<lparr>RecursionAvailable := True\<rparr>;
                     message = SetReply lib message request
                 in Inr \<lparr>written = message, exchanges = log, world = w'\<rparr>)"

section \<open>The administrative routes over the record table\<close>














section \<open>Predicates of the statements\<close>

text \<open>An exchange the handlers take as usable: \<open>err == nil || err == dns.ErrTruncated\<close>.\<close>

definition succeeded :: "error option \<Rightarrow> bool" where
  "succeeded e = (e = None \<or> e = Some ErrTruncated)"

text \<open>Every entry of the pending map is filed under the name of its question.\<close>

definition names_key :: "(string \<times> dnsQuestion) list \<Rightarrow> bool" where
  "names_key t = list_all (\<lambda>(k, q). k = qName q) t"

text \<open>A question whose key is in the record table, and the answer made for it.\<close>

definition owned :: "store \<Rightarrow> Config \<Rightarrow> dnsQuestion \<Rightarrow> bool" where
  "owned st config q = (Records_get st config (question_key config q) \<noteq> None)"

definition synthesized :: "'w dnslib \<Rightarrow> store \<Rightarrow> Config \<Rightarrow> dnsQuestion \<Rightarrow> dnsRR \<Rightarrow> bool" where
  "synthesized lib st config q rr =
     (case Records_get st config (question_key config q) of
        None \<Rightarrow> False
      | Some record \<Rightarrow> NewRR lib (Sprintf_A (qName q) (TTL record) (Address record)) = Inr rr)"

text \<open>
  What the handlers rely on from the package. \<open>SetReply\<close> fills in the header of the
  reply and leaves its answer and authority sections, its authoritative and
  recursion-available bits and its compression setting as they are; it gives the reply the
  first question of the request, when there is one. \<open>SetRcode\<close> is \<open>SetReply\<close> followed
  by the assignment of the code.
\<close>

definition SetReply_keeps :: "'w dnslib \<Rightarrow> bool" where
  "SetReply_keeps lib =
     (\<forall>m request. Answer (SetReply lib m request) = Answer m
        \<and> Ns (SetReply lib m request) = Ns m
        \<and> Authoritative (SetReply lib m request) = Authoritative m
        \<and> RecursionAvailable (SetReply lib m request) = RecursionAvailable m
        \<and> Compress (SetReply lib m request) = Compress m)"

definition SetReply_first_question :: "'w dnslib \<Rightarrow> bool" where
  "SetReply_first_question lib =
     (\<forall>m request. Question (SetReply lib m request) =
        (if 0 < length (Question request) then [hd (Question request)] else Question m))"

definition SetRcode_by_SetReply :: "'w dnslib \<Rightarrow> bool" where
  "SetRcode_by_SetReply lib =
     (\<forall>m request rcode. SetRcode lib m request rcode = (SetReply lib m request)\<lparr>Rcode := rcode\<rparr>)"

text \<open>
  A reply decoded from the wire comes with the compression setting off: \<open>Compress\<close> is
  an instruction to the encoder of the package, not a field of the message on the wire.
\<close>

definition Exchange_uncompressed :: "'w dnslib \<Rightarrow> bool" where
  "Exchange_uncompressed lib =
     (\<forall>w c m a. succeeded (snd (fst (Exchange lib w c m a))) \<longrightarrow>
        \<not> Compress (fst (fst (Exchange lib w c m a))))"

text \<open>An exchange of a log is a call of \<open>Exchange\<close> in some state of the network.\<close>

definition exchanged :: "'w dnslib \<Rightarrow> query \<Rightarrow> bool" where
  "exchanged lib q = (\<exists>w. fst (Exchange lib w (via q) (sent q) (dialled q)) = (reply q, err q))"

text \<open>Address and nameserver records of class IN, as the package holds them.\<close>

definition rr_A :: "string \<Rightarrow> uint32 \<Rightarrow> string \<Rightarrow> dnsRR" where
  "rr_A name ttl address = \<lparr>hdrName = name, Rrtype = 1, Class = 1, Ttl = ttl, Rdata = address\<rparr>"

definition rr_NS :: "string \<Rightarrow> uint32 \<Rightarrow> string \<Rightarrow> dnsRR" where
  "rr_NS name ttl host = \<lparr>hdrName = name, Rrtype = 2, Class = 1, Ttl = ttl, Rdata = host\<rparr>"

text \<open>
  Names and addresses in plain form. A plain fully-qualified name is made of labels of
  one to 63 letters, digits and hyphens, each followed by a dot, and has at most 254
  characters. A dotted quad is four decimal numbers up to 255, without leading zeros,
  separated by dots.
\<close>

definition is_digit :: "char \<Rightarrow> bool" where
  "is_digit c = (48 \<le> (of_char c :: nat) \<and> (of_char c :: nat) \<le> 57)"

definition is_name_char :: "char \<Rightarrow> bool" where
  "is_name_char c =
     (let n = (of_char c :: nat)
      in (48 \<le> n \<and> n \<le> 57) \<or> (65 \<le> n \<and> n \<le> 90) \<or> (97 \<le> n \<and> n \<le> 122) \<or> n = 45)"

fun labels :: "string \<Rightarrow> nat \<Rightarrow> bool" where
  "labels [] n = (n = 0)"
| "labels (c # cs) n =
     (if c = CHR ''.'' then 0 < n \<and> labels cs 0
      else is_name_char c \<and> n < 63 \<and> labels cs (Suc n))"

definition plain_fqdn :: "string \<Rightarrow> bool" where
  "plain_fqdn name = (name \<noteq> [] \<and> length name \<le> 254 \<and> labels name 0)"

fun split_on :: "char \<Rightarrow> string \<Rightarrow> string list" where
  "split_on sep [] = [[]]"
| "split_on sep (c # cs) =
     (if c = sep then [] # split_on sep cs
      else (case split_on sep cs of [] \<Rightarrow> [[c]] | w # ws \<Rightarrow> (c # w) # ws))"

definition decimal :: "string \<Rightarrow> nat" where
  "decimal s = foldl (\<lambda>i c. i * 10 + (of_char c - 48)) 0 s"

definition octet :: "string \<Rightarrow> bool" where
  "octet s = (s \<noteq> [] \<and> length s \<le> 3 \<and> list_all is_digit s
     \<and> (length s = 1 \<or> hd s \<noteq> CHR ''0'') \<and> decimal s \<le> 255)"

definition dotted_quad :: "string \<Rightarrow> bool" where
  "dotted_quad address =
     (list_all (\<lambda>c. is_digit c \<or> c = CHR ''.'') address
      \<and> (case split_on (CHR ''.'') address of
           [a, b, c, d] \<Rightarrow> octet a \<and> octet b \<and> octet c \<and> octet d
         | _ \<Rightarrow> False))"




section \<open>A library and a network for the examples\<close>

text \<open>
  The examples run the handlers with these stand-ins for the DNS package. \<open>ex_SetReply\<close>
  and \<open>ex_SetRcode\<close> follow \<open>Msg.SetReply\<close> and \<open>Msg.SetRcode\<close> of the package: the reply
  takes the identifier and opcode of the request, is marked as a response, copies the
  recursion-desired and checking-disabled bits of a standard query, has the success code
  (or the code given) and, when the request has a question, carries its first question.
\<close>

definition ex_SetReply :: "dnsMsg \<Rightarrow> dnsMsg \<Rightarrow> dnsMsg" where
  "ex_SetReply m request =
     (let m = m\<lparr>Id := Id request, Response := True, Opcode := Opcode request\<rparr>;
          m = (if Opcode m = 0
               then m\<lparr>RecursionDesired := RecursionDesired request,
                      CheckingDisabled := CheckingDisabled request\<rparr>
               else m);
          m = m\<lparr>Rcode := 0\<rparr>
      in if length (Question request) > 0 then m\<lparr>Question := [hd (Question request)]\<rparr> else m)"

definition ex_SetRcode :: "dnsMsg \<Rightarrow> dnsMsg \<Rightarrow> int \<Rightarrow> dnsMsg" where
  "ex_SetRcode m request rcode = (ex_SetReply m request)\<lparr>Rcode := rcode\<rparr>"

text \<open>
  The parser of the examples reads the two kinds of text the server writes, five fields
  separated by single spaces: an address record or a nameserver record of class IN. The
  TTL is read as \<open>stringToTTL\<close> of the package reads a number: digit by digit into an
  unsigned 32-bit integer.
\<close>

definition stringToTTL :: "string \<Rightarrow> uint32 option" where
  "stringToTTL token =
     (if list_all is_digit token
      then Some (foldl (\<lambda>i c. i * 10 + of_nat (of_char c - 48)) 0 token)
      else None)"

definition ex_NewRR :: "string \<Rightarrow> error + dnsRR" where
  "ex_NewRR text =
     (case split_on (CHR '' '') text of
        [name, ttl, class, type, rdata] \<Rightarrow>
          (case stringToTTL ttl of
             None \<Rightarrow> Inl (LibError ''dns: not a TTL'')
           | Some t \<Rightarrow>
               if ttl \<noteq> [] \<and> class = ''IN'' \<and> plain_fqdn name \<and> type = ''A'' \<and> dotted_quad rdata
                 then Inr (rr_A name t rdata)
               else if ttl \<noteq> [] \<and> class = ''IN'' \<and> plain_fqdn name \<and> type = ''NS'' \<and> plain_fqdn rdata
                 then Inr (rr_NS name t rdata)
               else Inl (LibError ''dns: bad record''))
      | _ \<Rightarrow> Inl (LibError ''dns: bad record''))"

text \<open>
  The network of the examples answers by the address dialled and the questions asked, and
  counts the exchanges.
\<close>

definition ex_lib ::
  "(string \<Rightarrow> error + dnsRR) \<Rightarrow> (string \<Rightarrow> dnsQuestion list \<Rightarrow> dnsMsg \<times> error option) \<Rightarrow> nat dnslib" where
  "ex_lib parse servers =
     \<lparr>NewRR = parse,
      SetReply = ex_SetReply,
      SetRcode = ex_SetRcode,
      Exchange = (\<lambda>w c m a. (servers a (Question m), Suc w))\<rparr>"

definition q_A :: "string \<Rightarrow> dnsQuestion" where
  "q_A name = \<lparr>qName = name, Qtype = 1, Qclass = 1\<rparr>"

definition ex_query :: "dnsQuestion list \<Rightarrow> dnsMsg" where
  "ex_query qs = new_Msg\<lparr>Id := 7, RecursionDesired := True, Question := qs\<rparr>"

definition ex_answer :: "dnsRR list \<Rightarrow> dnsMsg" where
  "ex_answer rrs = new_Msg\<lparr>Id := 7, Response := True, RecursionAvailable := True, Answer := rrs\<rparr>"

definition ex_ns :: "string \<Rightarrow> Nameserver" where
  "ex_ns a = \<lparr>nsAddress = a, Timeout = 2000000000, Transport = ''udp''\<rparr>"

definition ex_config :: "Nameserver list \<Rightarrow> Config" where
  "ex_config nss = \<lparr>Port = 53, Name = ''example.com.'', Secret = ''s3cret'',
     Records = Some 0, Nameservers = nss\<rparr>"

definition ex_store :: store where
  "ex_store = (\<lambda>a. Map.empty)(0 := [''www'' \<mapsto> \<lparr>Address = ''10.0.0.1'', TTL = 300\<rparr>])"

definition ex_servers :: "string \<Rightarrow> dnsQuestion list \<Rightarrow> dnsMsg \<times> error option" where
  "ex_servers a qs =
     (if a = ''10.0.0.53:53'' then (ex_answer [rr_A ''a.example.com.'' 60 ''192.0.2.1''], None)
      else if a = ''10.0.0.54:53''
        then (ex_answer (map (\<lambda>q. rr_A (qName q) 60 ''192.0.2.2'') qs), None)
      else if a = ''10.0.0.55:53''
        then (ex_answer (concat (map (\<lambda>q. [rr_A (qName q) 60 ''192.0.2.3'',
                                               rr_A (qName q) 60 ''192.0.2.4'']) qs)), None)
      else if a = ''10.0.0.57:53''
        then ((ex_answer (map (\<lambda>q. rr_A (qName q) 60 ''192.0.2.6'') qs))\<lparr>Truncated := True\<rparr>,
              Some ErrTruncated)
      else (new_Msg, Some (LibError ''i/o timeout'')))"

definition ex :: "nat dnslib" where
  "ex = ex_lib ex_NewRR ex_servers"

definition ex_Host :: string where
  "ex_Host = ''192.168.1.10''"


text \<open>A query of the zone with one name of the record table and one name outside it.\<close>

definition ex_mixed :: dnsMsg where
  "ex_mixed = ex_query [q_A ''www.example.com.'', q_A ''x.example.com.'']"

definition ex_zone :: "go_panic + nat handled" where
  "ex_zone = RequestHandler ex ex_Host ex_store (ex_config [ex_ns ''10.0.0.54:53'']) ex_mixed 0"







section \<open>Theorems\<close>

subsection \<open>The pending map of batch resolution\<close>

lemma fold_delete_filter:
  "fold (\<lambda>answer. AList.delete (hdrName answer)) as t
     = filter (\<lambda>(k, q). k \<notin> hdrName ` set as) t"
proof (induction as arbitrary: t)
  case Nil
  then show ?case by simp
next
  case (Cons a as)
  have "filter (\<lambda>(k, q). k \<notin> hdrName ` set as) (AList.delete (hdrName a) t)
          = filter (\<lambda>(k, q). k \<notin> hdrName ` set (a # as)) t"
    by (induction t) (auto simp: AList.delete_eq)
  with Cons show ?case by simp
qed

lemma names_key_update: "names_key t \<Longrightarrow> names_key (AList.update (qName q) q t)"
  by (induction t) (auto simp: names_key_def)

lemma names_key_fold_update:
  "names_key t \<Longrightarrow> names_key (fold (\<lambda>question. AList.update (qName question) question) qs t)"
  by (induction qs arbitrary: t) (auto simp: names_key_update)

lemma names_key_Resolve_targets: "names_key (Resolve_targets qs)"
  unfolding Resolve_targets_def by (rule names_key_fold_update) (simp add: names_key_def)

lemma names_key_filter: "names_key t \<Longrightarrow> names_key (filter P t)"
  by (induction t) (auto simp: names_key_def)

lemma names_key_Resolve_body:
  "names_key (targets s) \<Longrightarrow> names_key (targets (Resolve_body lib questions nameserver s))"
  by (auto simp: Resolve_body_def Let_def fold_delete_filter names_key_filter split: prod.splits)


text \<open>Whatever is pending, every message of batch resolution carries the questions \<open>Resolve\<close> was given.\<close>

lemma Resolve_body_asked:
  "\<exists>u q. asked (Resolve_body lib questions nameserver s) = asked s @ [(u, q)]
      \<and> u = map snd (targets s) \<and> server q = nameserver \<and> Question (sent q) = questions"
  by (auto simp: Resolve_body_def Let_def split: prod.splits)

lemma Resolve_loop_asked:
  "\<exists>new. asked (Resolve_loop lib questions nss s) = asked s @ new
      \<and> (\<forall>(u, q)\<in>set new. Question (sent q) = questions)"
proof (induction nss arbitrary: s)
  case Nil
  then show ?case by simp
next
  case (Cons nameserver rest)
  show ?case
  proof (cases "targets s = []")
    case True
    then show ?thesis by simp
  next
    case False
    from Resolve_body_asked [of lib questions nameserver s] obtain u q
      where b: "asked (Resolve_body lib questions nameserver s) = asked s @ [(u, q)]"
        "Question (sent q) = questions"
      by blast
    from Cons.IH [of "Resolve_body lib questions nameserver s"] obtain new
      where n: "asked (Resolve_loop lib questions rest (Resolve_body lib questions nameserver s))
                  = asked (Resolve_body lib questions nameserver s) @ new"
        "\<forall>(u, q)\<in>set new. Question (sent q) = questions"
      by blast
    from False b n show ?thesis
      by (intro exI [of _ "(u, q) # new"]) simp
  qed
qed

lemma Resolve_run_sends_all:
  "\<forall>(u, q)\<in>set (asked (Resolve_run lib config questions w)). Question (sent q) = questions"
  using Resolve_loop_asked [of lib questions "Nameservers config"
      "\<lparr>targets = Resolve_targets questions, answers = [], asked = [], net = w\<rparr>"]
  by (auto simp: Resolve_run_def)

subsection \<open>The run of the pass-through loop\<close>

lemma RecurseHandler_loop_trace:
  "RecurseHandler_loop lib request nss w log0 = (res, log, w') \<Longrightarrow>
     \<exists>new. log = log0 @ new
       \<and> map server new = take (length new) nss
       \<and> (\<forall>q\<in>set new. sent q = request \<and> dialled q = nsAddress (server q)
              \<and> via q = \<lparr>Net = Transport (server q), clTimeout = Timeout (server q)\<rparr>)
       \<and> (\<forall>q\<in>set (butlast new). \<not> succeeded (err q))
       \<and> (case res of
            Some r \<Rightarrow> new \<noteq> [] \<and> succeeded (err (last new)) \<and> r = (reply (last new))\<lparr>Compress := False\<rparr>
          | None \<Rightarrow> length new = length nss \<and> (\<forall>q\<in>set new. \<not> succeeded (err q)))"
proof (induction nss arbitrary: w log0)
  case Nil
  then show ?case by auto
next
  case (Cons nameserver rest)
  let ?c = "\<lparr>Net = Transport nameserver, clTimeout = Timeout nameserver\<rparr>"
  obtain r e w1 where ex: "Exchange lib w ?c request (nsAddress nameserver) = ((r, e), w1)"
    by (metis surj_pair)
  let ?q = "\<lparr>server = nameserver, via = ?c, sent = request,
              dialled = nsAddress nameserver, reply = r, err = e\<rparr>"
  show ?case
  proof (cases "succeeded e")
    case True
    with Cons.prems ex have "res = Some (r\<lparr>Compress := False\<rparr>)" "log = log0 @ [?q]"
      by (auto simp: succeeded_def Let_def)
    with True show ?thesis by (intro exI [of _ "[?q]"]) simp
  next
    case False
    with Cons.prems ex
    have "RecurseHandler_loop lib request rest w1 (log0 @ [?q]) = (res, log, w')"
      by (auto simp: succeeded_def Let_def)
    from Cons.IH [OF this] obtain new where new: "log = (log0 @ [?q]) @ new"
      "map server new = take (length new) rest"
      "\<forall>q\<in>set new. sent q = request \<and> dialled q = nsAddress (server q)
              \<and> via q = \<lparr>Net = Transport (server q), clTimeout = Timeout (server q)\<rparr>"
      "\<forall>q\<in>set (butlast new). \<not> succeeded (err q)"
      "case res of
            Some r \<Rightarrow> new \<noteq> [] \<and> succeeded (err (last new)) \<and> r = (reply (last new))\<lparr>Compress := False\<rparr>
          | None \<Rightarrow> length new = length rest \<and> (\<forall>q\<in>set new. \<not> succeeded (err q))"
      by blast
    have "\<forall>q\<in>set (butlast (?q # new)). \<not> succeeded (err q)"
      using new(4) False by (cases new) auto
    with new False show ?thesis
      by (intro exI [of _ "?q # new"]) (auto split: option.splits)
  qed
qed

subsection \<open>The split and the assembly of the zone handler\<close>

lemma RequestHandler_split_acc:
  "RequestHandler_split lib st config qs acc unk = Inr (answers', unknown) \<Longrightarrow>
     \<exists>synth. answers' = acc @ synth
       \<and> unknown = unk @ filter (\<lambda>q. \<not> owned st config q) qs
       \<and> list_all2 (synthesized lib st config) (filter (owned st config) qs) synth"
proof (induction qs arbitrary: acc unk)
  case Nil
  then show ?case by simp
next
  case (Cons question rest)
  show ?case
  proof (cases "Records_get st config (question_key config question)")
    case None
    with Cons.prems
    have "RequestHandler_split lib st config rest acc (unk @ [question]) = Inr (answers', unknown)"
      by simp
    from Cons.IH [OF this] None show ?thesis
      by (auto simp: owned_def)
  next
    case (Some rcd)
    with Cons.prems obtain rr
      where rr: "NewRR lib (Sprintf_A (qName question) (TTL rcd) (Address rcd)) = Inr rr"
        and rec: "RequestHandler_split lib st config rest (acc @ [rr]) unk = Inr (answers', unknown)"
      by (auto simp: MustRR_def split: sum.splits)
    from Cons.IH [OF rec] obtain synth where synth: "answers' = (acc @ [rr]) @ synth"
      "unknown = unk @ filter (\<lambda>q. \<not> owned st config q) rest"
      "list_all2 (synthesized lib st config) (filter (owned st config) rest) synth"
      by blast
    have "owned st config question" "synthesized lib st config question rr"
      using Some rr by (simp_all add: owned_def synthesized_def)
    with synth show ?thesis
      by (intro exI [of _ "rr # synth"]) simp
  qed
qed

lemma RequestHandler_Inr:
  assumes "RequestHandler lib Host st config request w = Inr out"
  shows "\<exists>synth unknown ns.
           RequestHandler_split lib st config (Question request) [] [] = Inr (synth, unknown)
         \<and> NewRR lib (Sprintf_NS (Name config) Host) = Inr ns
         \<and> written out = SetReply lib
              (new_Msg\<lparr>Answer := synth @ (if unknown = [] then [] else Resolve lib config unknown w),
                 Ns := [ns], Authoritative := True, RecursionAvailable := True\<rparr>) request
         \<and> exchanges out =
              (if unknown = [] then [] else map snd (asked (Resolve_run lib config unknown w)))
         \<and> world out = (if unknown = [] then w else net (Resolve_run lib config unknown w))"
proof -
  from assms obtain synth unknown
    where split: "RequestHandler_split lib st config (Question request) [] [] = Inr (synth, unknown)"
    by (auto simp: RequestHandler_def Let_def split: sum.splits)
  with assms obtain ns where ns: "NewRR lib (Sprintf_NS (Name config) Host) = Inr ns"
    by (auto simp: RequestHandler_def Let_def MustRR_def split: sum.splits prod.splits)
  show ?thesis
    using assms split ns
    by (intro exI [of _ synth] exI [of _ unknown] exI [of _ ns])
       (auto simp: RequestHandler_def Let_def MustRR_def split: if_splits)
qed

subsection \<open>The library of the examples\<close>

lemma ex_SetReply_keeps: "SetReply_keeps (ex_lib parse servers)"
  by (simp add: SetReply_keeps_def ex_lib_def ex_SetReply_def Let_def)

subsection \<open>The pass-through handler and its loop\<close>

lemma RecurseHandler_run:
  assumes "out = RecurseHandler lib config request w"
  shows "\<exists>res. RecurseHandler_loop lib request (Nameservers config) w [] = (res, exchanges out, world out)
           \<and> written out = (case res of Some r \<Rightarrow> r | None \<Rightarrow> WriteError lib request)"
  using assms by (auto simp: RecurseHandler_def split: prod.splits option.splits)

subsection \<open>The key of a question, and when the zone handler returns\<close>



lemma RequestHandler_split_returns:
  assumes "\<forall>q\<in>set qs. \<forall>rcd. Records_get st config (question_key config q) = Some rcd \<longrightarrow>
             (\<exists>rr. NewRR lib (Sprintf_A (qName q) (TTL rcd) (Address rcd)) = Inr rr)"
  shows "\<exists>res. RequestHandler_split lib st config qs acc unk = Inr res"
  using assms
proof (induction qs arbitrary: acc unk)
  case Nil
  then show ?case by simp
next
  case (Cons question rest)
  show ?case
  proof (cases "Records_get st config (question_key config question)")
    case None
    with Cons show ?thesis by simp
  next
    case (Some rcd)
    with Cons.prems obtain rr
      where "NewRR lib (Sprintf_A (qName question) (TTL rcd) (Address rcd)) = Inr rr"
      by auto
    with Some Cons show ?thesis by (simp add: MustRR_def)
  qed
qed

lemma RequestHandler_returns:
  assumes "\<forall>q\<in>set (Question request). \<forall>rcd.
             Records_get st config (question_key config q) = Some rcd \<longrightarrow>
             (\<exists>rr. NewRR lib (Sprintf_A (qName q) (TTL rcd) (Address rcd)) = Inr rr)"
      and "NewRR lib (Sprintf_NS (Name config) Host) = Inr ns"
  shows "\<exists>out. RequestHandler lib Host st config request w = Inr out"
proof -
  from RequestHandler_split_returns [OF assms(1), where acc = "[]" and unk = "[]"] obtain res
    where "RequestHandler_split lib st config (Question request) [] [] = Inr res"
    by blast
  with assms(2) show ?thesis
    by (cases res) (simp add: RequestHandler_def Let_def MustRR_def split: prod.splits)
qed

subsection \<open>The example query of the zone\<close>

lemma ex_zone_Inr: "ex_zone = Inr (projr ex_zone)"
proof -
  have "\<not> isl ex_zone" by code_simp
  then show ?thesis by simp
qed

lemma ex_split:
  "RequestHandler_split ex ex_store (ex_config [ex_ns ''10.0.0.54:53'']) (Question ex_mixed) [] []
     = Inr ([rr_A ''www.example.com.'' 300 ''10.0.0.1''], [q_A ''x.example.com.''])"
  by code_simp

lemma ex_keeps: "SetReply_keeps ex"
  by (simp add: ex_def ex_SetReply_keeps)

lemma ex_NS: "NewRR ex (Sprintf_NS (Name (ex_config [ex_ns ''10.0.0.54:53''])) ex_Host)
   = Inr (rr_NS ''example.com.'' 3600 ''192.168.1.10.'')"
  by code_simp

lemma ex_Resolve: "Resolve ex (ex_config [ex_ns ''10.0.0.54:53'']) [q_A ''x.example.com.''] 0
   = [rr_A ''x.example.com.'' 60 ''192.0.2.2'']"
  by code_simp

subsection \<open>The parser of the examples reads what the server writes\<close>




















subsection \<open>The package of the examples, and the replies of a run\<close>

lemma ex_SetReply_first_question: "SetReply_first_question (ex_lib parse servers)"
  by (simp add: SetReply_first_question_def ex_lib_def ex_SetReply_def Let_def)

lemma ex_SetRcode_by_SetReply: "SetRcode_by_SetReply (ex_lib parse servers)"
  by (simp add: SetRcode_by_SetReply_def ex_lib_def ex_SetRcode_def)

lemma ex_Exchange_uncompressed: "Exchange_uncompressed ex"
  by (simp add: Exchange_uncompressed_def ex_def ex_lib_def ex_servers_def ex_answer_def
      new_Msg_def)

lemma RecurseHandler_loop_exchanged:
  assumes "RecurseHandler_loop lib request nss w log0 = (res, log, w')"
      and "\<forall>q\<in>set log0. exchanged lib q"
  shows "\<forall>q\<in>set log. exchanged lib q"
  using assms
proof (induction nss arbitrary: w log0)
  case Nil
  then show ?case by simp
next
  case (Cons nameserver rest)
  let ?c = "\<lparr>Net = Transport nameserver, clTimeout = Timeout nameserver\<rparr>"
  obtain r e w1 where ex: "Exchange lib w ?c request (nsAddress nameserver) = ((r, e), w1)"
    by (metis surj_pair)
  let ?q = "\<lparr>server = nameserver, via = ?c, sent = request,
              dialled = nsAddress nameserver, reply = r, err = e\<rparr>"
  have q: "exchanged lib ?q"
    unfolding exchanged_def using ex by (intro exI [of _ w]) simp
  show ?case
  proof (cases "succeeded e")
    case True
    with Cons.prems ex have "log = log0 @ [?q]" by (auto simp: succeeded_def Let_def)
    with Cons.prems(2) q show ?thesis by simp
  next
    case False
    with Cons.prems ex
    have "RecurseHandler_loop lib request rest w1 (log0 @ [?q]) = (res, log, w')"
      by (auto simp: succeeded_def Let_def)
    moreover have "\<forall>q\<in>set (log0 @ [?q]). exchanged lib q" using Cons.prems(2) q by simp
    ultimately show ?thesis by (rule Cons.IH)
  qed
qed

lemma exchanged_uncompressed:
  "Exchange_uncompressed lib \<Longrightarrow> exchanged lib q \<Longrightarrow> succeeded (err q) \<Longrightarrow> \<not> Compress (reply q)"
  unfolding Exchange_uncompressed_def exchanged_def
  by (metis fst_conv snd_conv)

lemma WriteError_package:
  assumes "SetReply_keeps lib" and "SetRcode_by_SetReply lib" and "SetReply_first_question lib"
  shows "Rcode (WriteError lib request) = RcodeServerFailure"
    and "\<not> Compress (WriteError lib request)"
    and "RecursionAvailable (WriteError lib request)"
    and "Question (WriteError lib request) = take 1 (Question request)"
proof -
  let ?m = "(SetReply lib new_Msg request)\<lparr>Compress := False, RecursionAvailable := True\<rparr>"
  have w: "WriteError lib request = (SetReply lib ?m request)\<lparr>Rcode := RcodeServerFailure\<rparr>"
    using assms(2) by (simp add: WriteError_def SetRcode_by_SetReply_def Let_def)
  show "Rcode (WriteError lib request) = RcodeServerFailure" by (simp add: w)
  from assms(1) have k: "Compress (SetReply lib ?m request) = Compress ?m"
    "RecursionAvailable (SetReply lib ?m request) = RecursionAvailable ?m"
    by (simp_all only: SetReply_keeps_def)
  then show "\<not> Compress (WriteError lib request)" "RecursionAvailable (WriteError lib request)"
    by (simp_all add: w)
  from assms(3) have q: "Question (SetReply lib m request) =
        (if 0 < length (Question request) then [hd (Question request)] else Question m)" for m
    by (simp only: SetReply_first_question_def)
  have "Question (WriteError lib request) = Question (SetReply lib ?m request)" by (simp add: w)
  also have "\<dots> = (if 0 < length (Question request) then [hd (Question request)] else Question ?m)"
    by (rule q)
  also have "Question ?m = Question (SetReply lib new_Msg request)" by simp
  also have "\<dots> = (if 0 < length (Question request) then [hd (Question request)] else [])"
    by (simp add: q new_Msg_def)
  finally show "Question (WriteError lib request) = take 1 (Question request)"
    by (cases "Question request") simp_all
qed

subsection \<open>Names without the suffix of the zone; sessions of the routes\<close>





subsection \<open>Transport\<close>

lemma unquote_quoted: "unquote (quoted s) = Inr s"
  by (simp add: unquote_def quoted_def)

text \<open>
  C10. When the JSON value decodes to the string \<open>s\<close>: the empty string is accepted and
  the transport becomes "tcp"; "tcp" and "udp" are accepted and stored unchanged; every
  other string is refused with the illegal-value error, and the transport keeps the value
  it had.
\<close>

theorem Transport_UnmarshalJSON_cases:
  assumes "json_Unmarshal b = Inr s"
  shows "(s = [] \<longrightarrow> Transport_UnmarshalJSON json_Unmarshal e b = (''tcp'', None))
       \<and> (s = ''tcp'' \<or> s = ''udp'' \<longrightarrow> Transport_UnmarshalJSON json_Unmarshal e b = (s, None))
       \<and> (s \<noteq> [] \<and> s \<noteq> ''tcp'' \<and> s \<noteq> ''udp'' \<longrightarrow>
            Transport_UnmarshalJSON json_Unmarshal e b = (e, Some (IllegalTransport s)))"
  using assms by (simp add: Transport_UnmarshalJSON_def)

theorem Transport_UnmarshalJSON_cases_witness:
  "Transport_UnmarshalJSON unquote ''old'' (quoted []) = (''tcp'', None)
   \<and> Transport_UnmarshalJSON unquote ''old'' (quoted ''udp'') = (''udp'', None)
   \<and> Transport_UnmarshalJSON unquote ''old'' (quoted ''tcp'') = (''tcp'', None)
   \<and> Transport_UnmarshalJSON unquote ''old'' (quoted ''sctp'') = (''old'', Some (IllegalTransport ''sctp''))"
  using Transport_UnmarshalJSON_cases [of unquote "quoted []" "[]" "''old''"]
    Transport_UnmarshalJSON_cases [of unquote "quoted ''udp''" "''udp''" "''old''"]
    Transport_UnmarshalJSON_cases [of unquote "quoted ''tcp''" "''tcp''" "''old''"]
    Transport_UnmarshalJSON_cases [of unquote "quoted ''sctp''" "''sctp''" "''old''"]
  by (simp add: unquote_quoted)

section \<open>Batch resolution: what is asked, and what an attempt does\<close>

text \<open>
  C1. The questions sent to a nameserver, against the questions pending at that attempt.
  Two questions, for a.example.com. and b.example.com.; the first nameserver answers the
  first name only. At the second attempt the pending questions are that for
  b.example.com. alone (the slice \<open>unknown\<close>), and the message sent to the second
  nameserver still carries both questions: \<open>r.Question = questions\<close> sends the argument of
  \<open>Resolve\<close>, not \<open>unknown\<close> (in every run, by \<open>Resolve_run_sends_all\<close>).
\<close>

theorem Resolve_resends_answered:
  "map (\<lambda>(unknown, q). (nsAddress (server q), map qName unknown, map qName (Question (sent q))))
     (asked (Resolve_run ex (ex_config [ex_ns ''10.0.0.53:53'', ex_ns ''10.0.0.54:53''])
        [q_A ''a.example.com.'', q_A ''b.example.com.''] 0))
   = [(''10.0.0.53:53'', [''a.example.com.'', ''b.example.com.''],
                         [''a.example.com.'', ''b.example.com.'']),
      (''10.0.0.54:53'', [''b.example.com.''],
                         [''a.example.com.'', ''b.example.com.''])]"
  by code_simp



section \<open>The zone handler\<close>

text \<open>
  C7. Whenever the zone handler returns a response, with a package whose \<open>SetReply\<close>
  leaves the sections and flags below as they are: the answer section is the synthesized
  records followed by the records of batch resolution on the unknown questions (nothing,
  when there is none); the authority section is the one record parsed from the text
  "zone 3600 IN NS host."; the authoritative and recursion-available bits are set and
  compression is off.
\<close>

theorem RequestHandler_assembles:
  assumes "SetReply_keeps lib" and "RequestHandler lib Host st config request w = Inr out"
  shows "\<exists>synth unknown ns.
           RequestHandler_split lib st config (Question request) [] [] = Inr (synth, unknown)
         \<and> Answer (written out) =
             synth @ (if unknown = [] then [] else Resolve lib config unknown w)
         \<and> NewRR lib (Sprintf_NS (Name config) Host) = Inr ns
         \<and> Ns (written out) = [ns]
         \<and> Authoritative (written out)
         \<and> RecursionAvailable (written out)
         \<and> \<not> Compress (written out)"
proof -
  from RequestHandler_Inr [OF assms(2)] obtain synth unknown ns
    where s: "RequestHandler_split lib st config (Question request) [] [] = Inr (synth, unknown)"
      and n: "NewRR lib (Sprintf_NS (Name config) Host) = Inr ns"
      and m: "written out = SetReply lib
              (new_Msg\<lparr>Answer := synth @ (if unknown = [] then [] else Resolve lib config unknown w),
                 Ns := [ns], Authoritative := True, RecursionAvailable := True\<rparr>) request"
    by blast
  from assms(1) m
  have "Answer (written out) = synth @ (if unknown = [] then [] else Resolve lib config unknown w)"
       "Ns (written out) = [ns]" "Authoritative (written out)" "RecursionAvailable (written out)"
       "\<not> Compress (written out)"
    by (simp_all add: SetReply_keeps_def new_Msg_def)
  with s n show ?thesis by blast
qed

theorem RequestHandler_assembles_witness:
  "Answer (written (projr ex_zone))
     = [rr_A ''www.example.com.'' 300 ''10.0.0.1'', rr_A ''x.example.com.'' 60 ''192.0.2.2'']
   \<and> Ns (written (projr ex_zone)) = [rr_NS ''example.com.'' 3600 ''192.168.1.10.'']
   \<and> Authoritative (written (projr ex_zone))
   \<and> RecursionAvailable (written (projr ex_zone))
   \<and> \<not> Compress (written (projr ex_zone))"
proof -
  let ?cfg = "ex_config [ex_ns ''10.0.0.54:53'']"
  from RequestHandler_assembles [OF ex_keeps ex_zone_Inr [unfolded ex_zone_def], folded ex_zone_def]
  obtain synth unknown ns
    where s: "RequestHandler_split ex ex_store ?cfg (Question ex_mixed) [] [] = Inr (synth, unknown)"
      and a: "Answer (written (projr ex_zone)) =
                synth @ (if unknown = [] then [] else Resolve ex ?cfg unknown 0)"
      and n: "NewRR ex (Sprintf_NS (Name ?cfg) ex_Host) = Inr ns"
             "Ns (written (projr ex_zone)) = [ns]"
      and f: "Authoritative (written (projr ex_zone))" "RecursionAvailable (written (projr ex_zone))"
             "\<not> Compress (written (projr ex_zone))"
    by blast
  from s ex_split have "synth = [rr_A ''www.example.com.'' 300 ''10.0.0.1'']"
    "unknown = [q_A ''x.example.com.'']" by simp_all
  moreover from n ex_NS have "ns = rr_NS ''example.com.'' 3600 ''192.168.1.10.''" by simp
  ultimately show ?thesis using a n(2) f ex_Resolve by simp
qed

text \<open>
  C2, as the specification states it: at most one answer record for a question. A query
  with the single question x.example.com., a name that is not in the record table; the
  nameserver at 10.0.0.55:53 returns two address records for it. The response carries
  both: two answers for one question.
\<close>

theorem RequestHandler_answer_count_counterexample:
  "(case RequestHandler ex ex_Host ex_store (ex_config [ex_ns ''10.0.0.55:53''])
           (ex_query [q_A ''x.example.com.'']) 0 of
      Inl p \<Rightarrow> False
    | Inr out \<Rightarrow>
        Question (written out) = [q_A ''x.example.com.'']
      \<and> Answer (written out) = [rr_A ''x.example.com.'' 60 ''192.0.2.3'',
                                  rr_A ''x.example.com.'' 60 ''192.0.2.4''])"
  by code_simp

text \<open>
  C2, amended. Whenever the zone handler returns a response (\<open>SetReply\<close> as in C7), with
  \<open>n\<close> questions whose key is in the record table: the first \<open>n\<close> answers are the
  synthesized ones, exactly one for each such question and in their order; the answers
  after them are all the records batch resolution has collected for the other questions,
  however many that is; when every question is in the table there are as many answers
  as questions; and the authority section is the one nameserver record of the zone.
\<close>

theorem RequestHandler_answer_count:
  assumes "SetReply_keeps lib" and "RequestHandler lib Host st config request w = Inr out"
      and "unknown = filter (\<lambda>q. \<not> owned st config q) (Question request)"
      and "n = length (filter (owned st config) (Question request))"
  shows "list_all2 (synthesized lib st config) (filter (owned st config) (Question request))
           (take n (Answer (written out)))
       \<and> drop n (Answer (written out)) = (if unknown = [] then [] else Resolve lib config unknown w)
       \<and> (unknown = [] \<longrightarrow> length (Answer (written out)) = length (Question request))
       \<and> (\<exists>ns. NewRR lib (Sprintf_NS (Name config) Host) = Inr ns \<and> Ns (written out) = [ns])"
proof -
  from RequestHandler_Inr [OF assms(2)] obtain synth unknown' ns
    where s: "RequestHandler_split lib st config (Question request) [] [] = Inr (synth, unknown')"
      and ns: "NewRR lib (Sprintf_NS (Name config) Host) = Inr ns"
      and m: "written out = SetReply lib
              (new_Msg\<lparr>Answer := synth @ (if unknown' = [] then [] else Resolve lib config unknown' w),
                 Ns := [ns], Authoritative := True, RecursionAvailable := True\<rparr>) request"
    by blast
  from RequestHandler_split_acc [OF s] assms(3)
  have l: "list_all2 (synthesized lib st config) (filter (owned st config) (Question request)) synth"
    and u: "unknown' = unknown"
    by auto
  from l assms(4) have len: "length synth = n" by (simp add: list_all2_lengthD)
  from assms(1) m u
  have a: "Answer (written out) = synth @ (if unknown = [] then [] else Resolve lib config unknown w)"
    and nsf: "Ns (written out) = [ns]"
    by (simp_all add: SetReply_keeps_def new_Msg_def)
  have all: "filter (owned st config) (Question request) = Question request" if "unknown = []"
    using that assms(3) by (simp add: filter_empty_conv)
  have "length (Answer (written out)) = length (Question request)" if "unknown = []"
    using that a len assms(4) all [OF that] by simp
  with a len l ns nsf show ?thesis by auto
qed

theorem RequestHandler_answer_count_witness:
  "take 1 (Answer (written (projr ex_zone))) = [rr_A ''www.example.com.'' 300 ''10.0.0.1'']
   \<and> synthesized ex ex_store (ex_config [ex_ns ''10.0.0.54:53'']) (q_A ''www.example.com.'')
        (rr_A ''www.example.com.'' 300 ''10.0.0.1'')
   \<and> drop 1 (Answer (written (projr ex_zone))) = [rr_A ''x.example.com.'' 60 ''192.0.2.2'']
   \<and> Ns (written (projr ex_zone)) = [rr_NS ''example.com.'' 3600 ''192.168.1.10.'']"
proof -
  let ?cfg = "ex_config [ex_ns ''10.0.0.54:53'']"
  have u: "[q_A ''x.example.com.''] = filter (\<lambda>q. \<not> owned ex_store ?cfg q) (Question ex_mixed)"
    by code_simp
  have o: "filter (owned ex_store ?cfg) (Question ex_mixed) = [q_A ''www.example.com.'']"
    by code_simp
  then have n: "1 = length (filter (owned ex_store ?cfg) (Question ex_mixed))" by simp
  from RequestHandler_answer_count [OF ex_keeps ex_zone_Inr [unfolded ex_zone_def] u n,
      folded ex_zone_def]
  have l: "list_all2 (synthesized ex ex_store ?cfg) (filter (owned ex_store ?cfg) (Question ex_mixed))
           (take 1 (Answer (written (projr ex_zone))))"
    and d: "drop 1 (Answer (written (projr ex_zone))) = Resolve ex ?cfg [q_A ''x.example.com.''] 0"
    and "\<exists>ns. NewRR ex (Sprintf_NS (Name ?cfg) ex_Host) = Inr ns \<and> Ns (written (projr ex_zone)) = [ns]"
    by simp_all
  then have ns: "Ns (written (projr ex_zone)) = [rr_NS ''example.com.'' 3600 ''192.168.1.10.'']"
    using ex_NS by auto
  from l o obtain rr where t: "take 1 (Answer (written (projr ex_zone))) = [rr]"
    and sy: "synthesized ex ex_store ?cfg (q_A ''www.example.com.'') rr"
    by (auto simp: list_all2_Cons1)
  have key: "Records_get ex_store ?cfg (question_key ?cfg (q_A ''www.example.com.''))
               = Some \<lparr>Address = ''10.0.0.1'', TTL = 300\<rparr>"
    by code_simp
  have tpl: "NewRR ex (Sprintf_A (qName (q_A ''www.example.com.'')) 300 ''10.0.0.1'')
               = Inr (rr_A ''www.example.com.'' 300 ''10.0.0.1'')"
    by code_simp
  from sy key tpl have "rr = rr_A ''www.example.com.'' 300 ''10.0.0.1''"
    by (simp add: synthesized_def)
  with sy t d ns ex_Resolve show ?thesis by simp
qed


section \<open>Pass-through recursion\<close>

text \<open>
  C4. In a run of the pass-through handler, with replies that come from \<open>Exchange\<close>
  with the compression setting off: the nameservers are tried in the configured order
  (the servers of the exchanges are an initial part of the configured list); every
  exchange sends the request as it is to the address of its nameserver; every exchange
  but the last has failed, so nothing is tried after an exchange that succeeds or is
  truncated; and when the last exchange has succeeded or was truncated, the message
  written to the client is the reply of the upstream, unchanged.
\<close>

theorem RecurseHandler_relays:
  assumes "Exchange_uncompressed lib"
      and "out = RecurseHandler lib config request w" and "log = exchanges out"
  shows "map server log = take (length log) (Nameservers config)
       \<and> (\<forall>q\<in>set log. sent q = request \<and> dialled q = nsAddress (server q))
       \<and> (\<forall>q\<in>set (butlast log). \<not> succeeded (err q))
       \<and> (log \<noteq> [] \<and> succeeded (err (last log)) \<longrightarrow> written out = reply (last log))"
proof -
  from RecurseHandler_run [OF assms(2)] obtain res
    where loop: "RecurseHandler_loop lib request (Nameservers config) w [] = (res, exchanges out, world out)"
      and wr: "written out = (case res of Some r \<Rightarrow> r | None \<Rightarrow> WriteError lib request)"
    by blast
  from RecurseHandler_loop_trace [OF loop] assms(3)
  have t: "map server log = take (length log) (Nameservers config)"
       "\<forall>q\<in>set log. sent q = request \<and> dialled q = nsAddress (server q)"
       "\<forall>q\<in>set (butlast log). \<not> succeeded (err q)"
       "case res of
            Some r \<Rightarrow> log \<noteq> [] \<and> succeeded (err (last log)) \<and> r = (reply (last log))\<lparr>Compress := False\<rparr>
          | None \<Rightarrow> length log = length (Nameservers config) \<and> (\<forall>q\<in>set log. \<not> succeeded (err q))"
    by auto
  from RecurseHandler_loop_exchanged [OF loop] assms(3)
  have ex: "\<forall>q\<in>set log. exchanged lib q" by simp
  have "written out = reply (last log)" if "log \<noteq> []" "succeeded (err (last log))"
  proof -
    from that t(4) wr have "written out = (reply (last log))\<lparr>Compress := False\<rparr>"
      by (cases res) auto
    moreover from that ex have "\<not> Compress (reply (last log))"
      using exchanged_uncompressed [OF assms(1)] last_in_set by blast
    ultimately show ?thesis by simp
  qed
  with t(1-3) show ?thesis by auto
qed

theorem RecurseHandler_relays_witness:
  "map (nsAddress \<circ> server) (exchanges (RecurseHandler ex
       (ex_config [ex_ns ''10.0.0.99:53'', ex_ns ''10.0.0.57:53'', ex_ns ''10.0.0.54:53''])
       (ex_query [q_A ''host.example.net.'']) 0)) = [''10.0.0.99:53'', ''10.0.0.57:53'']
   \<and> written (RecurseHandler ex
       (ex_config [ex_ns ''10.0.0.99:53'', ex_ns ''10.0.0.57:53'', ex_ns ''10.0.0.54:53''])
       (ex_query [q_A ''host.example.net.'']) 0)
     = fst (ex_servers ''10.0.0.57:53'' [q_A ''host.example.net.''])"
proof -
  let ?out = "RecurseHandler ex
       (ex_config [ex_ns ''10.0.0.99:53'', ex_ns ''10.0.0.57:53'', ex_ns ''10.0.0.54:53''])
       (ex_query [q_A ''host.example.net.'']) 0"
  have l: "map (nsAddress \<circ> server) (exchanges ?out) = [''10.0.0.99:53'', ''10.0.0.57:53'']"
    by code_simp
  have n: "exchanges ?out \<noteq> []" using l by auto
  have r: "reply (last (exchanges ?out)) = fst (ex_servers ''10.0.0.57:53'' [q_A ''host.example.net.''])"
    by code_simp
  have e: "succeeded (err (last (exchanges ?out)))" by code_simp
  from RecurseHandler_relays [OF ex_Exchange_uncompressed refl refl] n r e l show ?thesis
    by metis
qed

text \<open>
  C5, as the specification states it: the failure response echoes the question section
  of the query. A query with two questions; the one nameserver configured fails. The
  response has the server-failure code and carries the first question only.
\<close>

theorem RecurseHandler_all_fail_counterexample:
  "map err (exchanges (RecurseHandler ex (ex_config [ex_ns ''10.0.0.98:53''])
       (ex_query [q_A ''a.example.net.'', q_A ''b.example.net.'']) 0))
     = [Some (LibError ''i/o timeout'')]
   \<and> Question (ex_query [q_A ''a.example.net.'', q_A ''b.example.net.''])
     = [q_A ''a.example.net.'', q_A ''b.example.net.'']
   \<and> Rcode (written (RecurseHandler ex (ex_config [ex_ns ''10.0.0.98:53''])
       (ex_query [q_A ''a.example.net.'', q_A ''b.example.net.'']) 0)) = 2
   \<and> Question (written (RecurseHandler ex (ex_config [ex_ns ''10.0.0.98:53''])
       (ex_query [q_A ''a.example.net.'', q_A ''b.example.net.'']) 0))
     = [q_A ''a.example.net.'']"
  by code_simp

text \<open>
  C5, amended. When every exchange of a pass-through run fails, every configured
  nameserver has been tried, in order, and the message written is that of \<open>WriteError\<close>.
  With \<open>SetReply\<close> and \<open>SetRcode\<close> as the package has them, it has the server-failure
  code, the first question of the request as its question section (the whole question
  section of a request with one question), compression off and recursion available. With
  no nameserver configured there is no exchange at all.
\<close>

theorem RecurseHandler_all_fail:
  assumes "SetReply_keeps lib" and "SetRcode_by_SetReply lib" and "SetReply_first_question lib"
      and "out = RecurseHandler lib config request w"
      and "\<forall>q\<in>set (exchanges out). \<not> succeeded (err q)"
  shows "map server (exchanges out) = Nameservers config
       \<and> written out = WriteError lib request
       \<and> Rcode (written out) = RcodeServerFailure
       \<and> Question (written out) = take 1 (Question request)
       \<and> (length (Question request) = 1 \<longrightarrow> Question (written out) = Question request)
       \<and> \<not> Compress (written out)
       \<and> RecursionAvailable (written out)
       \<and> (Nameservers config = [] \<longrightarrow> exchanges out = [])"
proof -
  from RecurseHandler_run [OF assms(4)] obtain res
    where loop: "RecurseHandler_loop lib request (Nameservers config) w [] = (res, exchanges out, world out)"
      and wr: "written out = (case res of Some r \<Rightarrow> r | None \<Rightarrow> WriteError lib request)"
    by blast
  from RecurseHandler_loop_trace [OF loop]
  have t: "map server (exchanges out) = take (length (exchanges out)) (Nameservers config)"
       "case res of
            Some r \<Rightarrow> exchanges out \<noteq> [] \<and> succeeded (err (last (exchanges out)))
          | None \<Rightarrow> length (exchanges out) = length (Nameservers config)"
    by (auto split: option.splits)
  have none: "res = None"
  proof (cases res)
    case (Some r)
    with t(2) have "exchanges out \<noteq> []" "succeeded (err (last (exchanges out)))" by auto
    with assms(5) show ?thesis using last_in_set by blast
  qed simp
  with t have all: "map server (exchanges out) = Nameservers config" by simp
  from none wr have w: "written out = WriteError lib request" by simp
  note f = WriteError_package [OF assms(1-3), of request]
  have one: "take 1 (Question request) = Question request" if "length (Question request) = 1"
    using that by simp
  from all have "Nameservers config = [] \<longrightarrow> exchanges out = []" by auto
  with all w f one show ?thesis by simp
qed

theorem RecurseHandler_all_fail_witness:
  "map (nsAddress \<circ> server) (exchanges (RecurseHandler ex
       (ex_config [ex_ns ''10.0.0.98:53'', ex_ns ''10.0.0.99:53''])
       (ex_query [q_A ''host.example.net.'']) 0)) = [''10.0.0.98:53'', ''10.0.0.99:53'']
   \<and> Rcode (written (RecurseHandler ex
       (ex_config [ex_ns ''10.0.0.98:53'', ex_ns ''10.0.0.99:53''])
       (ex_query [q_A ''host.example.net.'']) 0)) = 2
   \<and> Question (written (RecurseHandler ex
       (ex_config [ex_ns ''10.0.0.98:53'', ex_ns ''10.0.0.99:53''])
       (ex_query [q_A ''host.example.net.'']) 0)) = [q_A ''host.example.net.'']
   \<and> exchanges (RecurseHandler ex (ex_config []) (ex_query [q_A ''host.example.net.'']) 0) = []
   \<and> Rcode (written (RecurseHandler ex (ex_config []) (ex_query [q_A ''host.example.net.'']) 0)) = 2"
proof -
  let ?req = "ex_query [q_A ''host.example.net.'']"
  let ?out = "RecurseHandler ex (ex_config [ex_ns ''10.0.0.98:53'', ex_ns ''10.0.0.99:53'']) ?req 0"
  let ?none = "RecurseHandler ex (ex_config []) ?req 0"
  have k: "SetReply_keeps ex" "SetRcode_by_SetReply ex" "SetReply_first_question ex"
    by (simp_all add: ex_def ex_SetReply_keeps ex_SetRcode_by_SetReply ex_SetReply_first_question)
  have f: "\<forall>q\<in>set (exchanges ?out). \<not> succeeded (err q)" by code_simp
  have f0: "\<forall>q\<in>set (exchanges ?none). \<not> succeeded (err q)" by code_simp
  have n: "map nsAddress (Nameservers (ex_config [ex_ns ''10.0.0.98:53'', ex_ns ''10.0.0.99:53'']))
             = [''10.0.0.98:53'', ''10.0.0.99:53'']"
          "Nameservers (ex_config []) = []" "Question ?req = [q_A ''host.example.net.'']"
    by (simp_all add: ex_config_def ex_ns_def ex_query_def)
  note A = RecurseHandler_all_fail [OF k refl f]
  note B = RecurseHandler_all_fail [OF k refl f0]
  from A have a1: "map server (exchanges ?out)
      = Nameservers (ex_config [ex_ns ''10.0.0.98:53'', ex_ns ''10.0.0.99:53''])"
    by blast
  have a2: "map (nsAddress \<circ> server) (exchanges ?out) = [''10.0.0.98:53'', ''10.0.0.99:53'']"
    using arg_cong [OF a1, of "map nsAddress"] n(1) by simp
  from A have "Rcode (written ?out) = RcodeServerFailure"
      "length (Question ?req) = 1 \<longrightarrow> Question (written ?out) = Question ?req"
    by blast+
  then have a3: "Rcode (written ?out) = 2" "Question (written ?out) = [q_A ''host.example.net.'']"
    using n(3) by (simp_all add: RcodeServerFailure_def)
  from B have "Nameservers (ex_config []) = [] \<longrightarrow> exchanges ?none = []"
      "Rcode (written ?none) = RcodeServerFailure"
    by blast+
  then have b: "exchanges ?none = []" "Rcode (written ?none) = 2"
    using n(2) by (simp_all add: RcodeServerFailure_def)
  from a2 a3 b show ?thesis by blast
qed

section \<open>The split of the zone handler\<close>




section \<open>Listing the record table\<close>



end
